theory Spec2Isabelle
  imports Complex_Main "HOL-Library.Sublist"
begin

section \<open>Python values and the operations the trader applies to them\<close>

text \<open>
  The trade payload and every exchange response are decoded JSON, so a value is one of
  the six JSON shapes. A Python float is a rational here: sizing is verified under exact
  arithmetic, and rounding of binary floating point is outside this development. A dict
  is an association list that is read with \<open>map_of\<close>. Logging and the one-second sleep
  of \<open>place_limit_order\<close> change no value and no call, and are left out; an expression
  that is evaluated only to be logged is kept where it may raise.
\<close>

datatype json =
    JNull
  | JBool bool
  | JNum rat
  | JStr string
  | JList "json list"
  | JObj "(string \<times> json) list"

datatype py_error =
    KeyError string
  | IndexError
  | TypeError
  | AttributeError
  | ValueError
  | ZeroDivisionError
  | ExchangeError string

text \<open>\<open>str(e)\<close>: a KeyError carries and prints the repr of its key, an exchange error
  its own message; the interpreter's wording of the other errors is abbreviated to their
  name.\<close>

definition quote :: "string \<Rightarrow> string" where
  "quote k = [CHR 0x27] @ k @ [CHR 0x27]"

fun str_error :: "py_error \<Rightarrow> string" where
  "str_error (KeyError r) = r"
| "str_error IndexError = ''IndexError''"
| "str_error TypeError = ''TypeError''"
| "str_error AttributeError = ''AttributeError''"
| "str_error ValueError = ''ValueError''"
| "str_error ZeroDivisionError = ''ZeroDivisionError''"
| "str_error (ExchangeError m) = m"

text \<open>Sequencing of statements that may raise: the first error ends the block.\<close>

definition andthen :: "py_error + 'a \<Rightarrow> ('a \<Rightarrow> py_error + 'b) \<Rightarrow> py_error + 'b" where
  "andthen m f = (case m of Inl e \<Rightarrow> Inl e | Inr v \<Rightarrow> f v)"

text \<open>Truth value of an object, as \<open>not x\<close> and \<open>if x\<close> read it.\<close>

fun py_truthy :: "json \<Rightarrow> bool" where
  "py_truthy JNull = False"
| "py_truthy (JBool b) = b"
| "py_truthy (JNum r) = (r \<noteq> 0)"
| "py_truthy (JStr s) = (s \<noteq> [])"
| "py_truthy (JList xs) = (xs \<noteq> [])"
| "py_truthy (JObj kvs) = (kvs \<noteq> [])"

text \<open>\<open>k in x\<close> for a string \<open>k\<close>: key of a dict, element of a list, substring of a
  string; any other object is not a container.\<close>

fun py_in :: "string \<Rightarrow> json \<Rightarrow> py_error + bool" where
  "py_in k (JObj kvs) = Inr (k \<in> fst ` set kvs)"
| "py_in k (JList xs) = Inr (JStr k \<in> set xs)"
| "py_in k (JStr s) = Inr (sublist k s)"
| "py_in k _ = Inl TypeError"

text \<open>\<open>x[k]\<close> for a string \<open>k\<close>.\<close>

fun py_getitem :: "json \<Rightarrow> string \<Rightarrow> py_error + json" where
  "py_getitem (JObj kvs) k =
     (case map_of kvs k of None \<Rightarrow> Inl (KeyError (quote k)) | Some v \<Rightarrow> Inr v)"
| "py_getitem _ k = Inl TypeError"

text \<open>\<open>x[0]\<close>: a list or string is indexed, a decoded JSON object has no integer key.\<close>

fun py_first :: "json \<Rightarrow> py_error + json" where
  "py_first (JList xs) = (case xs of [] \<Rightarrow> Inl IndexError | x # _ \<Rightarrow> Inr x)"
| "py_first (JStr s) = (case s of [] \<Rightarrow> Inl IndexError | c # _ \<Rightarrow> Inr (JStr [c]))"
| "py_first (JObj kvs) = Inl (KeyError ''0'')"
| "py_first _ = Inl TypeError"

text \<open>\<open>x.get(k, d)\<close>: only a dict has the method.\<close>

fun py_get :: "json \<Rightarrow> string \<Rightarrow> json \<Rightarrow> py_error + json" where
  "py_get (JObj kvs) k d = Inr (case map_of kvs k of None \<Rightarrow> d | Some v \<Rightarrow> v)"
| "py_get _ k d = Inl AttributeError"

text \<open>\<open>for y in x\<close>: the elements of a list, the keys of a dict, the characters of a
  string.\<close>

fun py_iter :: "json \<Rightarrow> py_error + json list" where
  "py_iter (JList xs) = Inr xs"
| "py_iter (JObj kvs) = Inr (map JStr (remdups (map fst kvs)))"
| "py_iter (JStr s) = Inr (map (\<lambda>c. JStr [c]) s)"
| "py_iter _ = Inl TypeError"

text \<open>A number as an operand of arithmetic; \<open>True\<close> and \<open>False\<close> count as 1 and 0.\<close>

fun py_num :: "json \<Rightarrow> py_error + rat" where
  "py_num (JNum r) = Inr r"
| "py_num (JBool b) = Inr (if b then 1 else 0)"
| "py_num _ = Inl TypeError"

text \<open>\<open>float(x)\<close>. What \<open>float\<close> makes of a string is a parameter \<open>flt\<close> of the
  model (\<open>None\<close> where it raises ValueError).\<close>

fun py_float :: "(string \<Rightarrow> rat option) \<Rightarrow> json \<Rightarrow> py_error + rat" where
  "py_float flt (JNum r) = Inr r"
| "py_float flt (JBool b) = Inr (if b then 1 else 0)"
| "py_float flt (JStr s) = (case flt s of None \<Rightarrow> Inl ValueError | Some r \<Rightarrow> Inr r)"
| "py_float flt _ = Inl TypeError"

definition py_truediv :: "rat \<Rightarrow> rat \<Rightarrow> py_error + rat" where
  "py_truediv a b = (if b = 0 then Inl ZeroDivisionError else Inr (a / b))"

definition py_floordiv :: "rat \<Rightarrow> rat \<Rightarrow> py_error + rat" where
  "py_floordiv a b = (if b = 0 then Inl ZeroDivisionError else Inr (of_int \<lfloor>a / b\<rfloor>))"

text \<open>\<open>x != 0\<close> and \<open>x == 0\<close> never raise: only a number (or \<open>False\<close>) equals 0.\<close>

fun py_is_zero :: "json \<Rightarrow> bool" where
  "py_is_zero (JNum r) = (r = 0)"
| "py_is_zero (JBool b) = (\<not> b)"
| "py_is_zero _ = False"

text \<open>\<open>s.replace('/', '')\<close> and \<open>s.lower()\<close> exist on strings only. Lowering
  acts on the ASCII letters \<open>A\<close> to \<open>Z\<close>.\<close>

fun py_strip_slash :: "json \<Rightarrow> py_error + string" where
  "py_strip_slash (JStr s) = Inr (filter (\<lambda>c. c \<noteq> CHR ''/'') s)"
| "py_strip_slash _ = Inl AttributeError"

definition lower_char :: "char \<Rightarrow> char" where
  "lower_char c =
     (case map_of (zip ''ABCDEFGHIJKLMNOPQRSTUVWXYZ'' ''abcdefghijklmnopqrstuvwxyz'') c of
        None \<Rightarrow> c
      | Some l \<Rightarrow> l)"

fun py_lower :: "json \<Rightarrow> py_error + string" where
  "py_lower (JStr s) = Inr (map lower_char s)"
| "py_lower _ = Inl AttributeError"

section \<open>The exchange session\<close>

text \<open>
  The three operations the trader uses. The keyword arguments of \<open>place_order\<close> are
  the fields of a record (prefixed \<open>o_\<close>; an argument that is not passed is \<open>None\<close>);
  \<open>str(qty)\<close>, \<open>str(price)\<close> and \<open>str(stop_loss)\<close> are kept as the values they print.
\<close>

record order_request =
  o_category :: string
  o_symbol :: string
  o_side :: string
  o_orderType :: string
  o_qty :: rat
  o_price :: "json option"
  o_stopPrice :: "json option"
  o_timeInForce :: string
  o_triggerBy :: "string option"

datatype call =
    GetWalletBalance string
  | GetInstrumentsInfo string string
  | PlaceOrder order_request

datatype reply = Raises string | Returns json

text \<open>An exchange answers a call in the light of the calls made before it. The state of
  a run is the list of calls made so far, oldest first.\<close>

type_synonym exchange = "call list \<Rightarrow> call \<Rightarrow> reply"

definition session_call :: "exchange \<Rightarrow> call \<Rightarrow> call list \<Rightarrow> (py_error + json) \<times> call list" where
  "session_call ex c cs =
     (case ex cs c of Raises m \<Rightarrow> Inl (ExchangeError m) | Returns r \<Rightarrow> Inr r, cs @ [c])"

section \<open>BybitTrader\<close>

definition get_account_info :: "exchange \<Rightarrow> call list \<Rightarrow> json \<times> call list" where
  "get_account_info ex cs =
     (case session_call ex (GetWalletBalance ''UNIFIED'') cs of
        (Inl e, cs') \<Rightarrow> (JObj [], cs')
      | (Inr response, cs') \<Rightarrow> (response, cs'))"

definition get_symbol_info :: "exchange \<Rightarrow> json \<Rightarrow> call list \<Rightarrow> json \<times> call list" where
  "get_symbol_info ex symbol cs =
     (case py_strip_slash symbol of
        Inl e \<Rightarrow> (JObj [], cs)
      | Inr s \<Rightarrow>
          (case session_call ex (GetInstrumentsInfo ''linear'' s) cs of
             (Inl e, cs') \<Rightarrow> (JObj [], cs')
           | (Inr response, cs') \<Rightarrow>
               (case andthen (py_getitem response ''result'') (\<lambda>r. andthen (py_getitem r ''list'')
                       (\<lambda>l. if py_truthy l then py_first l else Inr (JObj []))) of
                  Inl e \<Rightarrow> (JObj [], cs')
                | Inr info \<Rightarrow> (info, cs'))))"

subsection \<open>calculate_position_size\<close>

text \<open>The inner loop over \<open>account['coin']\<close>: the first USDT entry sets the balance and
  breaks.\<close>

fun scan_coins :: "(string \<Rightarrow> rat option) \<Rightarrow> json list \<Rightarrow> py_error + rat option" where
  "scan_coins flt [] = Inr None"
| "scan_coins flt (coin # rest) =
     andthen (py_getitem coin ''coin'') (\<lambda>name.
       if name = JStr ''USDT''
       then andthen (py_getitem coin ''walletBalance'') (\<lambda>w.
              andthen (py_float flt w) (\<lambda>b. Inr (Some b)))
       else scan_coins flt rest)"

text \<open>The outer loop over \<open>account_info['result']['list']\<close>; a later account with a
  USDT entry overwrites the balance found in an earlier one.\<close>

fun scan_accounts :: "(string \<Rightarrow> rat option) \<Rightarrow> json list \<Rightarrow> rat \<Rightarrow> py_error + rat" where
  "scan_accounts flt [] usdt_balance = Inr usdt_balance"
| "scan_accounts flt (account # rest) usdt_balance =
     andthen (py_in ''coin'' account) (\<lambda>has.
       if has
       then andthen (py_getitem account ''coin'') (\<lambda>cl.
              andthen (py_iter cl) (\<lambda>coins.
                andthen (scan_coins flt coins) (\<lambda>found.
                  scan_accounts flt rest (case found of None \<Rightarrow> usdt_balance | Some b \<Rightarrow> b))))
       else scan_accounts flt rest usdt_balance)"

definition find_usdt_balance :: "(string \<Rightarrow> rat option) \<Rightarrow> json \<Rightarrow> py_error + rat" where
  "find_usdt_balance flt account_info =
     andthen (py_getitem account_info ''result'') (\<lambda>r.
       andthen (py_getitem r ''list'') (\<lambda>l.
         andthen (py_iter l) (\<lambda>accounts. scan_accounts flt accounts 0)))"

text \<open>The lot-size filter of the instrument, with the defaults of the source.\<close>

definition lot_size :: "(string \<Rightarrow> rat option) \<Rightarrow> json \<Rightarrow> py_error + rat \<times> rat" where
  "lot_size flt symbol_info =
     andthen (py_get symbol_info ''lotSizeFilter'' (JObj [])) (\<lambda>lot_size_filter.
       andthen (py_get lot_size_filter ''minOrderQty'' (JNum (1 / 1000))) (\<lambda>mq.
         andthen (py_float flt mq) (\<lambda>min_order_qty.
           andthen (py_get lot_size_filter ''qtyStep'' (JNum (1 / 1000))) (\<lambda>qs.
             andthen (py_float flt qs) (\<lambda>qty_step. Inr (min_order_qty, qty_step))))))"

definition min_order_value :: rat where
  "min_order_value = 5"

text \<open>Lines 113 to 126: flooring to the step, the clamp, and the notional floor.\<close>

definition quantize :: "rat \<Rightarrow> rat \<Rightarrow> rat \<Rightarrow> rat \<Rightarrow> py_error + rat" where
  "quantize position_size entry_price min_order_qty qty_step =
     andthen (py_floordiv position_size qty_step) (\<lambda>steps.
       let position_size = max (steps * qty_step) min_order_qty in
       andthen (py_truediv min_order_value entry_price) (\<lambda>min_position_size.
         if position_size * entry_price < min_order_value
         then andthen (py_floordiv min_position_size qty_step) (\<lambda>steps'.
                Inr (max ((steps' + 1) * qty_step) min_order_qty))
         else Inr position_size))"

text \<open>The body of the \<open>try\<close> block once the account information has been fetched.\<close>

definition position_size_body ::
  "(string \<Rightarrow> rat option) \<Rightarrow> json \<Rightarrow> json \<Rightarrow> json \<Rightarrow> json \<Rightarrow> json \<Rightarrow> py_error + rat" where
  "position_size_body flt account_info risk_pct stop_loss entry_price symbol_info =
     (if \<not> py_truthy account_info then Inr 0
      else andthen (py_in ''result'' account_info) (\<lambda>has.
        if \<not> has then Inr 0
        else andthen (find_usdt_balance flt account_info) (\<lambda>usdt_balance.
          if usdt_balance = 0 then Inr 0
          else andthen (py_num risk_pct) (\<lambda>rp.
            let risk_amount = usdt_balance * (rp / 100) in
            andthen (py_num entry_price) (\<lambda>ep.
              andthen (py_num stop_loss) (\<lambda>sl.
                let stop_distance = \<bar>ep - sl\<bar> in
                if stop_distance = 0 then Inr 0
                else andthen (py_truediv risk_amount stop_distance) (\<lambda>position_size.
                  andthen (lot_size flt symbol_info) (\<lambda>(min_order_qty, qty_step).
                    quantize position_size ep min_order_qty qty_step))))))))"

definition calculate_position_size ::
  "(string \<Rightarrow> rat option) \<Rightarrow> exchange \<Rightarrow> json \<Rightarrow> json \<Rightarrow> json \<Rightarrow> json \<Rightarrow> call list \<Rightarrow> rat \<times> call list" where
  "calculate_position_size flt ex risk_pct stop_loss entry_price symbol_info cs =
     (case get_account_info ex cs of
        (account_info, cs') \<Rightarrow>
          (case position_size_body flt account_info risk_pct stop_loss entry_price symbol_info of
             Inl e \<Rightarrow> (0, cs')
           | Inr position_size \<Rightarrow> (position_size, cs')))"

subsection \<open>place_limit_order\<close>

text \<open>A computation that may raise and may call the exchange: it maps the calls made so
  far to its outcome and the calls made after it. \<open>lift\<close> is a step that calls nothing,
  \<open>no_raise\<close> a method that catches its own errors, \<open>seq\<close> is sequencing: the calls made
  before an error stay made.\<close>

type_synonym 'a action = "call list \<Rightarrow> (py_error + 'a) \<times> call list"

definition lift :: "py_error + 'a \<Rightarrow> 'a action" where
  "lift r cs = (r, cs)"

definition no_raise :: "(call list \<Rightarrow> 'a \<times> call list) \<Rightarrow> 'a action" where
  "no_raise m cs = (case m cs of (v, cs') \<Rightarrow> (Inr v, cs'))"

definition seq :: "'a action \<Rightarrow> ('a \<Rightarrow> 'b action) \<Rightarrow> 'b action" where
  "seq m f cs = (case m cs of (Inl e, cs') \<Rightarrow> (Inl e, cs') | (Inr v, cs') \<Rightarrow> f v cs')"

definition place_order :: "exchange \<Rightarrow> order_request \<Rightarrow> json action" where
  "place_order ex req = session_call ex (PlaceOrder req)"

text \<open>\<open>response['retCode'] == 0\<close> and \<open>response['result']['orderId']\<close>.\<close>

definition ret_code_zero :: "json \<Rightarrow> py_error + bool" where
  "ret_code_zero response = andthen (py_getitem response ''retCode'') (\<lambda>c. Inr (py_is_zero c))"

definition order_id :: "json \<Rightarrow> py_error + json" where
  "order_id response = andthen (py_getitem response ''result'') (\<lambda>r. py_getitem r ''orderId'')"

text \<open>The three kinds of order the placer submits.\<close>

definition entry_order :: "string \<Rightarrow> string \<Rightarrow> rat \<Rightarrow> json \<Rightarrow> order_request" where
  "entry_order bybit_symbol derivatives_side qty price =
     \<lparr>o_category = ''linear'', o_symbol = bybit_symbol, o_side = derivatives_side,
      o_orderType = ''Limit'', o_qty = qty, o_price = Some price, o_stopPrice = None,
      o_timeInForce = ''GTC'', o_triggerBy = None\<rparr>"

definition stop_order :: "string \<Rightarrow> string \<Rightarrow> rat \<Rightarrow> json \<Rightarrow> order_request" where
  "stop_order bybit_symbol sl_side qty stop_loss =
     \<lparr>o_category = ''linear'', o_symbol = bybit_symbol, o_side = sl_side,
      o_orderType = ''Stop'', o_qty = qty, o_price = None, o_stopPrice = Some stop_loss,
      o_timeInForce = ''GTC'', o_triggerBy = Some ''LastPrice''\<rparr>"

definition take_profit_order :: "string \<Rightarrow> string \<Rightarrow> rat \<Rightarrow> json \<Rightarrow> order_request" where
  "take_profit_order bybit_symbol tp_side tp_qty tp_price =
     \<lparr>o_category = ''linear'', o_symbol = bybit_symbol, o_side = tp_side,
      o_orderType = ''Limit'', o_qty = tp_qty, o_price = Some tp_price, o_stopPrice = None,
      o_timeInForce = ''GTC'', o_triggerBy = None\<rparr>"

text \<open>The loop over \<open>take_profits\<close>; \<open>tp_responses\<close> collects the accepted legs.\<close>

fun place_take_profits ::
  "exchange \<Rightarrow> string \<Rightarrow> string \<Rightarrow> rat \<Rightarrow> json list \<Rightarrow> json list \<Rightarrow> json list action" where
  "place_take_profits ex bybit_symbol tp_side qty [] tp_responses cs = (Inr tp_responses, cs)"
| "place_take_profits ex bybit_symbol tp_side qty (tp # rest) tp_responses cs =
     (case andthen (py_getitem tp ''size_pct'') py_num of
        Inl e \<Rightarrow> (Inl e, cs)
      | Inr size_pct \<Rightarrow>
     (case py_getitem tp ''price'' of
        Inl e \<Rightarrow> (Inl e, cs)
      | Inr tp_price \<Rightarrow>
     (case place_order ex (take_profit_order bybit_symbol tp_side (qty * (size_pct / 100)) tp_price) cs of
        (Inl e, cs') \<Rightarrow> (Inl e, cs')
      | (Inr tp_response, cs') \<Rightarrow>
     (case ret_code_zero tp_response of
        Inl e \<Rightarrow> (Inl e, cs')
      | Inr accepted \<Rightarrow>
          if accepted
          then (case order_id tp_response of
                  Inl e \<Rightarrow> (Inl e, cs')
                | Inr _ \<Rightarrow>
                    place_take_profits ex bybit_symbol tp_side qty rest (tp_responses @ [tp_response]) cs')
          else place_take_profits ex bybit_symbol tp_side qty rest tp_responses cs'))))"

definition failure :: "json \<Rightarrow> json" where
  "failure msg = JObj [(''success'', JBool False), (''error'', msg)]"

definition place_limit_order_body ::
  "exchange \<Rightarrow> json \<Rightarrow> json \<Rightarrow> rat \<Rightarrow> json \<Rightarrow> json \<Rightarrow> json \<Rightarrow> json action" where
  "place_limit_order_body ex symbol side qty price stop_loss take_profits =
     seq (lift (py_strip_slash symbol)) (\<lambda>bybit_symbol.
     seq (lift (py_lower side)) (\<lambda>lowered.
     let derivatives_side = (if lowered = ''long'' then ''Buy'' else ''Sell'') in
     seq (place_order ex (entry_order bybit_symbol derivatives_side qty price)) (\<lambda>order_response.
     seq (lift (ret_code_zero order_response)) (\<lambda>accepted.
     if \<not> accepted then lift (Inr order_response)
     else
     seq (lift (order_id order_response)) (\<lambda>order_id'.
     seq (lift (py_lower side)) (\<lambda>lowered.
     let sl_side = (if lowered = ''long'' then ''Sell'' else ''Buy'') in
     seq (place_order ex (stop_order bybit_symbol sl_side qty stop_loss)) (\<lambda>sl_response.
     seq (lift (ret_code_zero sl_response)) (\<lambda>sl_accepted.
     seq (lift (if sl_accepted then order_id sl_response else Inr JNull)) (\<lambda>_.
     seq (lift (py_lower side)) (\<lambda>lowered.
     let tp_side = (if lowered = ''long'' then ''Sell'' else ''Buy'') in
     seq (lift (py_iter take_profits)) (\<lambda>tps.
     seq (place_take_profits ex bybit_symbol tp_side qty tps []) (\<lambda>tp_responses.
     lift (Inr (JObj [(''success'', JBool True), (''main_order'', order_response),
                      (''stop_loss'', sl_response), (''take_profits'', JList tp_responses)]))))))))))))))"

text \<open>\<open>timeout_min\<close> is accepted and not used.\<close>

definition place_limit_order ::
  "exchange \<Rightarrow> json \<Rightarrow> json \<Rightarrow> rat \<Rightarrow> json \<Rightarrow> json \<Rightarrow> json \<Rightarrow> json \<Rightarrow> call list \<Rightarrow> json \<times> call list" where
  "place_limit_order ex symbol side qty price stop_loss take_profits timeout_min cs =
     (case place_limit_order_body ex symbol side qty price stop_loss take_profits cs of
        (Inl e, cs') \<Rightarrow> (failure (JStr (str_error e)), cs')
      | (Inr result, cs') \<Rightarrow> (result, cs'))"

subsection \<open>execute_trade\<close>

text \<open>The loop over the required fields: the first one that is absent, if any.\<close>

fun missing_field :: "json \<Rightarrow> string list \<Rightarrow> py_error + string option" where
  "missing_field d [] = Inr None"
| "missing_field d (field # others) =
     andthen (py_in field d) (\<lambda>present.
       if \<not> present then Inr (Some field) else missing_field d others)"

text \<open>An f-string that prints a value of the payload is kept as the list of its parts.\<close>

definition execute_trade_body :: "(string \<Rightarrow> rat option) \<Rightarrow> exchange \<Rightarrow> json \<Rightarrow> json action" where
  "execute_trade_body flt ex trade_data =
     seq (lift (andthen (py_getitem trade_data ''symbol'') (\<lambda>_. py_getitem trade_data ''side''))) (\<lambda>_.
     seq (lift (missing_field trade_data [''symbol'', ''side'', ''limit_plan'', ''risk''])) (\<lambda>missing.
     case missing of
       Some field \<Rightarrow> lift (Inr (failure (JStr (''Missing required field: '' @ field))))
     | None \<Rightarrow>
     seq (lift (py_getitem trade_data ''symbol'')) (\<lambda>symbol.
     seq (lift (py_getitem trade_data ''side'')) (\<lambda>side.
     seq (lift (py_getitem trade_data ''limit_plan'')) (\<lambda>limit_plan.
     seq (lift (py_getitem trade_data ''risk'')) (\<lambda>risk.
     seq (no_raise (get_symbol_info ex symbol)) (\<lambda>symbol_info.
     if \<not> py_truthy symbol_info
     then lift (Inr (failure (JList [JStr ''Failed to get symbol info for '', symbol])))
     else
     seq (lift (andthen (py_getitem limit_plan ''orders'') (\<lambda>orders.
            andthen (py_first orders) (\<lambda>order. py_getitem order ''price'')))) (\<lambda>entry_price.
     seq (lift (py_getitem limit_plan ''stop_loss'')) (\<lambda>stop_loss.
     seq (lift (py_get risk ''risk_per_trade_pct'' (JNum (4 / 10)))) (\<lambda>risk_pct.
     seq (no_raise (calculate_position_size flt ex risk_pct stop_loss entry_price symbol_info)) (\<lambda>position_size.
     if position_size = 0
     then lift (Inr (failure (JStr ''Failed to calculate position size'')))
     else
     seq (lift (py_getitem limit_plan ''take_profits'')) (\<lambda>take_profits.
     seq (lift (andthen (py_getitem limit_plan ''cancel_if'') (\<lambda>c. py_getitem c ''timeout_min''))) (\<lambda>timeout_min.
     seq (no_raise (place_limit_order ex symbol side position_size entry_price stop_loss take_profits timeout_min)) (\<lambda>result.
     seq (lift (py_getitem result ''success'')) (\<lambda>_.
     lift (Inr result))))))))))))))))"

definition execute_trade :: "(string \<Rightarrow> rat option) \<Rightarrow> exchange \<Rightarrow> json \<Rightarrow> call list \<Rightarrow> json \<times> call list" where
  "execute_trade flt ex trade_data cs =
     (case execute_trade_body flt ex trade_data cs of
        (Inl e, cs') \<Rightarrow> (failure (JStr (str_error e)), cs')
      | (Inr result, cs') \<Rightarrow> (result, cs'))"

section \<open>TradingWebhookHandler\<close>











section \<open>Properties and fixtures\<close>

text \<open>A quantity is on the lot grid when flooring it to the step gives it back.\<close>

definition step_multiple :: "rat \<Rightarrow> rat \<Rightarrow> bool" where
  "step_multiple q s = (of_int \<lfloor>q / s\<rfloor> * s = q)"

text \<open>A wallet response with one unified account holding \<open>b\<close> USDT, and an instrument
  with the given minimum quantity and step.\<close>

definition usdt_wallet :: "rat \<Rightarrow> json" where
  "usdt_wallet b = JObj [(''result'', JObj [(''list'', JList [JObj [(''coin'',
      JList [JObj [(''coin'', JStr ''USDT''), (''walletBalance'', JNum b)]])]])])]"

definition instrument :: "rat \<Rightarrow> rat \<Rightarrow> json" where
  "instrument m s = JObj [(''symbol'', JStr ''HYPEUSDT''), (''lotSizeFilter'',
      JObj [(''minOrderQty'', JNum m), (''qtyStep'', JNum s)])]"

text \<open>An exchange answers a submission when it returns a response that carries a return
  code and, if the code is 0, an order id.\<close>

fun answered :: "reply \<Rightarrow> bool" where
  "answered (Raises m) = False"
| "answered (Returns r) =
     (case ret_code_zero r of
        Inl e \<Rightarrow> False
      | Inr accepted \<Rightarrow> (if accepted then (case order_id r of Inl e \<Rightarrow> False | Inr _ \<Rightarrow> True) else True))"

text \<open>A call is an order on the given side.\<close>

fun on_side :: "string \<Rightarrow> call \<Rightarrow> bool" where
  "on_side s (PlaceOrder req) = (o_side req = s)"
| "on_side s _ = False"

text \<open>A take-profit entry of the payload with its percentage and its price, and the leg
  submitted for it.\<close>

definition leg_of :: "json \<Rightarrow> rat \<times> json \<Rightarrow> bool" where
  "leg_of tp leg = (andthen (py_getitem tp ''size_pct'') py_num = Inr (fst leg) \<and> py_getitem tp ''price'' = Inr (snd leg))"

definition take_profit_leg :: "string \<Rightarrow> string \<Rightarrow> rat \<Rightarrow> rat \<times> json \<Rightarrow> order_request" where
  "take_profit_leg bybit_symbol tp_side qty leg =
     take_profit_order bybit_symbol tp_side (qty * (fst leg / 100)) (snd leg)"

text \<open>Responses and exchanges for the examples: one exchange rejects every order, the
  other rejects stop orders and the take-profit at 45.5516 and accepts the rest. The take
  profits are those of the sample trade.\<close>

definition accepted_response :: json where
  "accepted_response = JObj [(''retCode'', JNum 0), (''retMsg'', JStr ''OK''),
      (''result'', JObj [(''orderId'', JStr ''1'')])]"

definition rejected_response :: json where
  "rejected_response = JObj [(''retCode'', JNum 10001), (''retMsg'', JStr ''rejected''), (''result'', JObj [])]"

definition instruments_response :: json where
  "instruments_response = JObj [(''retCode'', JNum 0),
      (''result'', JObj [(''list'', JList [instrument (1 / 1000) (1 / 1000)])])]"

definition rejecting_exchange :: exchange where
  "rejecting_exchange cs c =
     (case c of
        GetWalletBalance a \<Rightarrow> Returns (usdt_wallet 1000)
      | GetInstrumentsInfo cat s \<Rightarrow> Returns instruments_response
      | PlaceOrder req \<Rightarrow> Returns rejected_response)"

definition stop_rejecting_exchange :: exchange where
  "stop_rejecting_exchange cs c =
     (case c of
        GetWalletBalance a \<Rightarrow> Returns (usdt_wallet 1000)
      | GetInstrumentsInfo cat s \<Rightarrow> Returns instruments_response
      | PlaceOrder req \<Rightarrow>
          if o_orderType req = ''Stop'' \<or> o_price req = Some (JNum (455516 / 10000))
          then Returns rejected_response else Returns accepted_response)"

definition sample_take_profits :: json where
  "sample_take_profits = JList
     [JObj [(''price'', JNum (451464 / 10000)), (''size_pct'', JNum 30)],
      JObj [(''price'', JNum (455516 / 10000)), (''size_pct'', JNum 40)],
      JObj [(''price'', JNum (459064 / 10000)), (''size_pct'', JNum 30)]]"

definition sample_legs :: "(rat \<times> json) list" where
  "sample_legs = [(30, JNum (451464 / 10000)), (40, JNum (455516 / 10000)), (30, JNum (459064 / 10000))]"

text \<open>
  The required-field check in the words of the specification: symbol, side, limit_plan and
  risk are present on the trade payload, and limit_plan carries a non-empty \<open>orders\<close>
  sequence, a \<open>stop_loss\<close> and a non-empty \<open>take_profits\<close> sequence.
\<close>

fun has_key :: "string \<Rightarrow> json \<Rightarrow> bool" where
  "has_key k (JObj kvs) = (k \<in> fst ` set kvs)"
| "has_key k _ = False"




text \<open>The sample trade of \<open>main\<close>, with the limit plan and the take-profits as
  parameters.\<close>

definition plan_with :: "json \<Rightarrow> json" where
  "plan_with take_profits = JObj
     [(''orders'', JList [JObj [(''price'', JNum (4464 / 100)), (''size_pct'', JNum 100)]]),
      (''stop_loss'', JNum (441336 / 10000)),
      (''take_profits'', take_profits),
      (''cancel_if'', JObj [(''timeout_min'', JNum 120)])]"

definition trade_with :: "json \<Rightarrow> json" where
  "trade_with limit_plan = JObj
     [(''action'', JStr ''open_limit''), (''symbol'', JStr ''HYPE/USDT''), (''side'', JStr ''long''),
      (''risk'', JObj [(''risk_per_trade_pct'', JNum (4 / 10))]),
      (''limit_plan'', limit_plan)]"

definition sample_trade :: json where
  "sample_trade = trade_with (plan_with sample_take_profits)"

section \<open>Position sizing\<close>

subsection \<open>Auxiliary facts\<close>

lemma step_multiple_iff: "s \<noteq> 0 \<Longrightarrow> step_multiple q s \<longleftrightarrow> (\<exists>n::int. q = of_int n * s)"
proof
  assume "step_multiple q s"
  then have "q = of_int \<lfloor>q / s\<rfloor> * s" by (simp add: step_multiple_def)
  then show "\<exists>n::int. q = of_int n * s" ..
next
  assume "s \<noteq> 0" and "\<exists>n::int. q = of_int n * s"
  then show "step_multiple q s" by (auto simp: step_multiple_def)
qed


lemma find_usdt_balance_wallet: "find_usdt_balance flt (usdt_wallet b) = Inr b"
  by (simp add: find_usdt_balance_def usdt_wallet_def andthen_def)


lemma find_usdt_balance_has_result:
  assumes "find_usdt_balance flt w = Inr b"
  shows "py_truthy w \<and> py_in ''result'' w = Inr True"
proof (cases w)
  case (JObj kvs)
  with assms obtain r where "map_of kvs ''result'' = Some r"
    by (auto simp: find_usdt_balance_def andthen_def split: option.splits)
  then have "(''result'', r) \<in> set kvs" by (rule map_of_SomeD)
  then have "kvs \<noteq> []" and "''result'' \<in> fst ` set kvs" by force+
  with JObj show ?thesis by simp
qed (use assms in \<open>simp_all add: find_usdt_balance_def andthen_def\<close>)





lemmas sizing_eval = calculate_position_size_def get_account_info_def session_call_def
  position_size_body_def find_usdt_balance_def lot_size_def usdt_wallet_def instrument_def
  quantize_def py_floordiv_def py_truediv_def min_order_value_def andthen_def Let_def

lemma floor_scenario: "\<lfloor>5000000 / 633 :: rat\<rfloor> = 7898"
  by (simp add: floor_eq_iff)



subsection \<open>The lot grid\<close>




subsection \<open>The notional floor\<close>




subsection \<open>The zero sentinel\<close>

lemma py_getitem_no_zdiv: "py_getitem x k \<noteq> Inl ZeroDivisionError"
  by (cases x) (simp_all split: option.splits)

lemma py_in_no_zdiv: "py_in k x \<noteq> Inl ZeroDivisionError"
  by (cases x) simp_all

lemma py_iter_no_zdiv: "py_iter x \<noteq> Inl ZeroDivisionError"
  by (cases x) simp_all

lemma py_float_no_zdiv: "py_float flt x \<noteq> Inl ZeroDivisionError"
  by (cases x) (simp_all split: option.splits)

lemma py_num_no_zdiv: "py_num x \<noteq> Inl ZeroDivisionError"
  by (cases x) simp_all

lemma andthen_no_zdiv:
  assumes "m \<noteq> Inl ZeroDivisionError" and "\<And>v. m = Inr v \<Longrightarrow> f v \<noteq> Inl ZeroDivisionError"
  shows "andthen m f \<noteq> Inl ZeroDivisionError"
  using assms by (cases m) (simp_all add: andthen_def)

lemma scan_coins_no_zdiv: "scan_coins flt coins \<noteq> Inl ZeroDivisionError"
proof (induction coins)
  case Nil
  show ?case by simp
next
  case (Cons coin rest)
  show ?case
    unfolding scan_coins.simps
    by (intro andthen_no_zdiv py_getitem_no_zdiv py_float_no_zdiv) (simp_all add: Cons.IH py_getitem_no_zdiv py_float_no_zdiv andthen_no_zdiv)
qed

lemma scan_accounts_no_zdiv: "scan_accounts flt accounts u \<noteq> Inl ZeroDivisionError"
proof (induction accounts arbitrary: u)
  case Nil
  show ?case by simp
next
  case (Cons account rest)
  show ?case
    unfolding scan_accounts.simps
    by (intro andthen_no_zdiv py_in_no_zdiv)
       (simp add: Cons.IH py_getitem_no_zdiv py_iter_no_zdiv scan_coins_no_zdiv andthen_no_zdiv)
qed

lemma find_usdt_balance_no_zdiv: "find_usdt_balance flt w \<noteq> Inl ZeroDivisionError"
  unfolding find_usdt_balance_def
  by (intro andthen_no_zdiv py_getitem_no_zdiv py_iter_no_zdiv scan_accounts_no_zdiv)


lemma get_account_info_raises:
  "ex cs (GetWalletBalance ''UNIFIED'') = Raises msg \<Longrightarrow> fst (get_account_info ex cs) = JObj []"
  by (simp add: get_account_info_def session_call_def)

lemma calculate_position_size_split:
  "fst (calculate_position_size flt ex risk_pct stop_loss entry_price symbol_info cs) =
     (case position_size_body flt (fst (get_account_info ex cs)) risk_pct stop_loss entry_price symbol_info of
        Inl e \<Rightarrow> 0 | Inr q \<Rightarrow> q)"
  by (simp add: calculate_position_size_def split: prod.splits sum.splits)

lemma body_zero_distance:
  assumes "py_num entry_price = Inr p" and "py_num stop_loss = Inr p"
  shows "position_size_body flt a risk_pct stop_loss entry_price symbol_info = Inr 0
     \<or> (\<exists>e. position_size_body flt a risk_pct stop_loss entry_price symbol_info = Inl e \<and> e \<noteq> ZeroDivisionError)"
  using py_in_no_zdiv [of "''result''" a] find_usdt_balance_no_zdiv [of flt a] py_num_no_zdiv [of risk_pct]
  by (auto simp: position_size_body_def andthen_def assms Let_def split: sum.splits)

lemma body_no_balance:
  assumes "find_usdt_balance flt a = Inr 0 \<or> \<not> py_truthy a \<or> py_in ''result'' a = Inr False"
  shows "position_size_body flt a risk_pct stop_loss entry_price symbol_info = Inr 0"
proof (cases "find_usdt_balance flt a = Inr 0")
  case True
  with find_usdt_balance_has_result [OF True] show ?thesis
    by (simp add: position_size_body_def andthen_def)
next
  case False
  with assms show ?thesis
    by (auto simp: position_size_body_def andthen_def)
qed

text \<open>
  Claim C3. When the entry price equals the stop-loss price, or the USDT balance found in
  the wallet is zero, or the wallet response is empty or has no \<open>result\<close>, or the wallet
  query raises, \<open>calculate_position_size\<close> returns 0, and the body of its \<open>try\<close> block
  does not end in a ZeroDivisionError: the sentinel does not come from a division by zero
  caught by the handler.
\<close>

theorem zero_sentinel_without_division:
  assumes "(py_num entry_price = Inr p \<and> py_num stop_loss = Inr p)
     \<or> find_usdt_balance flt (fst (get_account_info ex cs)) = Inr 0
     \<or> \<not> py_truthy (fst (get_account_info ex cs))
     \<or> py_in ''result'' (fst (get_account_info ex cs)) = Inr False
     \<or> ex cs (GetWalletBalance ''UNIFIED'') = Raises msg"
  shows "fst (calculate_position_size flt ex risk_pct stop_loss entry_price symbol_info cs) = 0
     \<and> position_size_body flt (fst (get_account_info ex cs)) risk_pct stop_loss entry_price symbol_info
           \<noteq> Inl ZeroDivisionError"
proof (cases "py_num entry_price = Inr p \<and> py_num stop_loss = Inr p")
  case True
  then show ?thesis
    using body_zero_distance [of entry_price p stop_loss flt "fst (get_account_info ex cs)" risk_pct symbol_info]
    by (auto simp: calculate_position_size_split)
next
  case False
  with assms have "find_usdt_balance flt (fst (get_account_info ex cs)) = Inr 0
     \<or> \<not> py_truthy (fst (get_account_info ex cs))
     \<or> py_in ''result'' (fst (get_account_info ex cs)) = Inr False"
    using get_account_info_raises [of ex cs msg] by auto
  from body_no_balance [OF this] show ?thesis
    by (simp add: calculate_position_size_split)
qed

text \<open>Claim C3 at three inputs: stop equal to entry, a wallet holding 0 USDT, and a
  wallet query that raises.\<close>

theorem zero_sentinel_without_division_witness:
  "fst (calculate_position_size (\<lambda>s. None) (\<lambda>cs c. Returns (usdt_wallet 1000)) (JNum (4 / 10)) (JNum (4464 / 100))
        (JNum (4464 / 100)) (instrument (1 / 1000) (1 / 1000)) []) = 0
   \<and> fst (calculate_position_size (\<lambda>s. None) (\<lambda>cs c. Returns (usdt_wallet 0)) (JNum (4 / 10)) (JNum (441336 / 10000))
        (JNum (4464 / 100)) (instrument (1 / 1000) (1 / 1000)) []) = 0
   \<and> fst (calculate_position_size (\<lambda>s. None) (\<lambda>cs c. Raises ''timeout'') (JNum (4 / 10)) (JNum (441336 / 10000))
        (JNum (4464 / 100)) (instrument (1 / 1000) (1 / 1000)) []) = 0"
proof -
  have a: "py_num (JNum (4464 / 100)) = Inr (4464 / 100)" by simp
  have b: "find_usdt_balance (\<lambda>s. None) (fst (get_account_info (\<lambda>cs c. Returns (usdt_wallet 0)) [])) = Inr 0"
    by (simp add: get_account_info_def session_call_def find_usdt_balance_wallet)
  have c: "(\<lambda>cs c. Raises ''timeout'') [] (GetWalletBalance ''UNIFIED'') = Raises ''timeout''" by simp
  show ?thesis
    using zero_sentinel_without_division [of "JNum (4464 / 100)" "4464 / 100" "JNum (4464 / 100)" "\<lambda>s. None" "\<lambda>cs c. Returns (usdt_wallet 1000)" "[]"]
      zero_sentinel_without_division [of _ _ _ "\<lambda>s. None" "\<lambda>cs c. Returns (usdt_wallet 0)" "[]"]
      zero_sentinel_without_division [of _ _ _ "\<lambda>s. None" "\<lambda>cs c. Raises ''timeout''" "[]" "''timeout''"]
      a b c by simp
qed

subsection \<open>The sample trade\<close>

text \<open>
  Claim C9. With a USDT balance of 1000, a risk of 0.4 percent, entry 44.64, stop 44.1336,
  and step and minimum quantity 0.001, the risk amount is 4, the stop distance 0.5064, the
  raw quantity \<open>4 / 0.5064\<close> is floored to 7898 steps, the notional of 7.898 is not below
  5, and \<open>calculate_position_size\<close> returns 7.898 after one wallet query.
\<close>

theorem sample_scenario_quantity:
  "calculate_position_size flt (\<lambda>cs c. Returns (usdt_wallet 1000)) (JNum (4 / 10)) (JNum (441336 / 10000))
     (JNum (4464 / 100)) (instrument (1 / 1000) (1 / 1000)) [] = (7898 / 1000, [GetWalletBalance ''UNIFIED''])
   \<and> 1000 * ((4 / 10) / 100) = (4 :: rat)
   \<and> \<bar>4464 / 100 - 441336 / 10000\<bar> = (5064 / 10000 :: rat)
   \<and> py_truediv 4 (5064 / 10000) = Inr (4 / (5064 / 10000))
   \<and> py_floordiv (4 / (5064 / 10000)) (1 / 1000) = Inr 7898
   \<and> \<not> (7898 / 1000 * (4464 / 100) < min_order_value)
   \<and> quantize (4 / (5064 / 10000)) (4464 / 100) (1 / 1000) (1 / 1000) = Inr (7898 / 1000)"
  by (simp add: sizing_eval floor_scenario)

section \<open>Bracket placement\<close>

subsection \<open>Auxiliary facts\<close>

lemma place_order_answered:
  assumes "answered (ex cs (PlaceOrder req))"
  shows "\<exists>r accepted. place_order ex req cs = (Inr r, cs @ [PlaceOrder req])
     \<and> ret_code_zero r = Inr accepted \<and> (accepted \<longrightarrow> (\<exists>oid. order_id r = Inr oid))"
proof (cases "ex cs (PlaceOrder req)")
  case (Raises m)
  with assms show ?thesis by simp
next
  case (Returns r)
  with assms show ?thesis
    by (auto simp: place_order_def session_call_def split: sum.splits if_splits)
qed

lemma place_take_profits_all:
  assumes "list_all2 leg_of tps legs"
    and "\<forall>i<length legs. answered (ex (cs @ map (\<lambda>l. PlaceOrder (take_profit_leg bs sd qty l)) (take i legs))
            (PlaceOrder (take_profit_leg bs sd qty (legs ! i))))"
  shows "\<exists>out. place_take_profits ex bs sd qty tps acc cs =
           (Inr out, cs @ map (\<lambda>l. PlaceOrder (take_profit_leg bs sd qty l)) legs)"
  using assms
proof (induction tps legs arbitrary: acc cs rule: list_all2_induct)
  case Nil
  show ?case by simp
next
  case (Cons tp tps leg legs)
  let ?T = "\<lambda>l. PlaceOrder (take_profit_leg bs sd qty l)"
  from Cons.hyps(1) have pct: "andthen (py_getitem tp ''size_pct'') py_num = Inr (fst leg)"
    and pr: "py_getitem tp ''price'' = Inr (snd leg)"
    by (simp_all add: leg_of_def)
  from Cons.prems have "answered (ex cs (?T leg))"
    by (auto dest: spec [of _ 0])
  from place_order_answered [of ex cs "take_profit_leg bs sd qty leg", OF this] obtain r accepted
    where po: "place_order ex (take_profit_leg bs sd qty leg) cs = (Inr r, cs @ [?T leg])"
      and rc: "ret_code_zero r = Inr accepted"
      and oid: "accepted \<longrightarrow> (\<exists>oid. order_id r = Inr oid)"
    by blast
  have later: "\<forall>i<length legs. answered (ex ((cs @ [?T leg]) @ map ?T (take i legs)) (?T (legs ! i)))"
  proof (intro allI impI)
    fix i assume "i < length legs"
    then have "Suc i < length (leg # legs)" by simp
    with Cons.prems have "answered (ex (cs @ map ?T (take (Suc i) (leg # legs))) (?T ((leg # legs) ! Suc i)))"
      by blast
    then show "answered (ex ((cs @ [?T leg]) @ map ?T (take i legs)) (?T (legs ! i)))"
      by simp
  qed
  from Cons.IH [OF later] have ih: "\<exists>out. place_take_profits ex bs sd qty tps acc' (cs @ [?T leg]) =
      (Inr out, cs @ map ?T (leg # legs))" for acc'
    by simp
  have po': "place_order ex (take_profit_order bs sd (qty * (fst leg / 100)) (snd leg)) cs = (Inr r, cs @ [?T leg])"
    using po by (simp add: take_profit_leg_def)
  show ?case
  proof (cases accepted)
    case True
    with oid obtain o' where "order_id r = Inr o'" by blast
    with True ih [of "acc @ [r]"] show ?thesis
      by (simp add: pct pr po' rc del: times_divide_eq_right)
  next
    case False
    with ih [of acc] show ?thesis
      by (simp add: pct pr po' rc del: times_divide_eq_right)
  qed
qed

lemma place_take_profits_sides:
  "\<exists>new. snd (place_take_profits ex bs sd qty tps acc cs) = cs @ new \<and> list_all (on_side sd) new"
proof (induction tps arbitrary: acc cs)
  case Nil
  show ?case by simp
next
  case (Cons tp tps)
  have step: "\<exists>new. snd (place_take_profits ex bs sd qty tps acc' (cs @ [PlaceOrder (take_profit_order bs sd q p)])) =
       cs @ new \<and> list_all (on_side sd) new" for acc' q p
  proof -
    from Cons.IH [of acc' "cs @ [PlaceOrder (take_profit_order bs sd q p)]"]
    obtain new where "snd (place_take_profits ex bs sd qty tps acc' (cs @ [PlaceOrder (take_profit_order bs sd q p)])) =
        (cs @ [PlaceOrder (take_profit_order bs sd q p)]) @ new" and "list_all (on_side sd) new"
      by blast
    then show ?thesis
      by (intro exI [of _ "PlaceOrder (take_profit_order bs sd q p) # new"]) (simp add: take_profit_order_def)
  qed
  have one: "list_all (on_side sd) [PlaceOrder (take_profit_order bs sd q p)]" for q p
    by (simp add: take_profit_order_def)
  show ?case
    using step one
    by (auto simp: place_order_def session_call_def split: sum.splits prod.splits reply.splits)
qed


lemma seq_lift: "seq (lift r) f cs = (case r of Inl e \<Rightarrow> (Inl e, cs) | Inr v \<Rightarrow> f v cs)"
  by (simp add: seq_def lift_def split: sum.splits)

lemma seq_place_order:
  "seq (place_order ex req) f cs =
     (case ex cs (PlaceOrder req) of
        Raises m \<Rightarrow> (Inl (ExchangeError m), cs @ [PlaceOrder req])
      | Returns r \<Rightarrow> f r (cs @ [PlaceOrder req]))"
  by (simp add: seq_def place_order_def session_call_def split: reply.splits)

lemma snd_seq_result: "snd (seq m (\<lambda>v. lift (Inr (g v))) cs) = snd (m cs)"
  by (simp add: seq_def lift_def split: prod.splits sum.splits)

lemma snd_place_limit_order:
  "snd (place_limit_order ex symbol side qty price stop_loss take_profits timeout_min cs) =
     snd (place_limit_order_body ex symbol side qty price stop_loss take_profits cs)"
  by (cases "place_limit_order_body ex symbol side qty price stop_loss take_profits cs")
     (simp add: place_limit_order_def split: sum.splits)

lemma seq_loop:
  "seq (place_take_profits ex bs sd q tps acc) f cs =
     (case place_take_profits ex bs sd q tps acc cs of
        (Inl e, cs') \<Rightarrow> (Inl e, cs')
      | (Inr v, cs') \<Rightarrow> f v cs')"
  by (simp add: seq_def)

lemma sum_list_scaled:
  "sum_list (map (\<lambda>l. q * (fst l / 100)) legs) = q * sum_list (map fst legs) / (100::rat)"
  by (induction legs) (simp_all add: distrib_left add_divide_distrib)

lemma place_order_eval:
  "place_order ex req cs =
     (case ex cs (PlaceOrder req) of
        Raises m \<Rightarrow> (Inl (ExchangeError m), cs @ [PlaceOrder req])
      | Returns r \<Rightarrow> (Inr r, cs @ [PlaceOrder req]))"
  by (simp add: place_order_def session_call_def split: reply.splits)

lemmas placing_eval = place_limit_order_def place_limit_order_body_def seq_lift seq_place_order seq_loop
  place_order_eval
  lift_def Let_def ret_code_zero_def order_id_def andthen_def entry_order_def stop_order_def
  take_profit_order_def take_profit_leg_def lower_char_def
  accepted_response_def rejected_response_def sample_take_profits_def sample_legs_def

lemma place_limit_order_complete:
  assumes "py_strip_slash symbol = Inr bs" and "py_lower side = Inr lowered"
    and "buy = (if lowered = ''long'' then ''Buy'' else ''Sell'')"
    and "sell = (if lowered = ''long'' then ''Sell'' else ''Buy'')"
    and "ex cs (PlaceOrder (entry_order bs buy qty price)) = Returns r0"
    and "ret_code_zero r0 = Inr True" and "order_id r0 = Inr oid"
    and "answered (ex (cs @ [PlaceOrder (entry_order bs buy qty price)]) (PlaceOrder (stop_order bs sell qty stop_loss)))"
    and "py_iter take_profits = Inr tps" and "list_all2 leg_of tps legs"
    and "\<forall>i<length legs. answered
           (ex (cs @ [PlaceOrder (entry_order bs buy qty price), PlaceOrder (stop_order bs sell qty stop_loss)]
                   @ map (\<lambda>l. PlaceOrder (take_profit_leg bs sell qty l)) (take i legs))
               (PlaceOrder (take_profit_leg bs sell qty (legs ! i))))"
  shows "snd (place_limit_order ex symbol side qty price stop_loss take_profits timeout_min cs) =
           cs @ [PlaceOrder (entry_order bs buy qty price), PlaceOrder (stop_order bs sell qty stop_loss)]
              @ map (\<lambda>l. PlaceOrder (take_profit_leg bs sell qty l)) legs"
proof -
  let ?E = "PlaceOrder (entry_order bs buy qty price)"
  let ?S = "PlaceOrder (stop_order bs sell qty stop_loss)"
  let ?T = "\<lambda>l. PlaceOrder (take_profit_leg bs sell qty l)"
  have "\<forall>i<length legs. answered (ex ((cs @ [?E, ?S]) @ map ?T (take i legs)) (?T (legs ! i)))"
    using assms(11) by simp
  from place_take_profits_all [OF assms(10) this, of "[]"]
  obtain out where loop: "place_take_profits ex bs sell qty tps [] (cs @ [?E, ?S]) = (Inr out, cs @ [?E, ?S] @ map ?T legs)"
    by auto
  have run: "seq (place_take_profits ex bs sell qty tps []) f (cs @ [?E, ?S]) = f out (cs @ [?E, ?S] @ map ?T legs)" for f
    by (simp add: seq_def loop)
  from assms(8) obtain r1 where sl: "ex (cs @ [?E]) ?S = Returns r1"
    by (cases "ex (cs @ [?E]) ?S") simp_all
  from assms(8) obtain sl_accepted where rc: "ret_code_zero r1 = Inr sl_accepted"
    and oid1: "sl_accepted \<longrightarrow> (\<exists>oid. order_id r1 = Inr oid)"
    by (auto simp: sl split: sum.splits if_splits)
  have logged: "\<exists>v. (if sl_accepted then order_id r1 else Inr JNull) = Inr v"
    using oid1 by auto
  then obtain v where v: "(if sl_accepted then order_id r1 else Inr JNull) = Inr v" ..
  have "place_limit_order_body ex symbol side qty price stop_loss take_profits cs =
      (Inr (JObj [(''success'', JBool True), (''main_order'', r0), (''stop_loss'', r1), (''take_profits'', JList out)]),
       cs @ [?E, ?S] @ map ?T legs)"
    using assms(5-7) assms(9)
    by (simp add: place_limit_order_body_def seq_lift seq_place_order Let_def assms(1,2)
        assms(3) [symmetric] assms(4) [symmetric] sl rc v run lift_def)
  then show ?thesis
    by (simp add: place_limit_order_def)
qed

lemma sample_legs: "list_all2 leg_of [JObj [(''price'', JNum (451464 / 10000)), (''size_pct'', JNum 30)],
      JObj [(''price'', JNum (455516 / 10000)), (''size_pct'', JNum 40)],
      JObj [(''price'', JNum (459064 / 10000)), (''size_pct'', JNum 30)]] sample_legs"
  by (simp add: leg_of_def sample_legs_def andthen_def)

lemma stop_rejecting_answers: "answered (stop_rejecting_exchange h (PlaceOrder req))"
  by (simp add: stop_rejecting_exchange_def placing_eval)

subsection \<open>Rejection of the entry\<close>

text \<open>
  Claim C4. If the exchange answers the entry order with a non-zero return code,
  \<open>place_limit_order\<close> returns that response as it is, and the entry order is the only
  call it has made: no stop-loss and no take-profit is submitted.
\<close>

theorem entry_rejection_aborts_bracket:
  assumes "py_strip_slash symbol = Inr bs" and "py_lower side = Inr lowered"
    and "ex cs (PlaceOrder (entry_order bs (if lowered = ''long'' then ''Buy'' else ''Sell'') qty price)) = Returns r"
    and "ret_code_zero r = Inr False"
  shows "place_limit_order ex symbol side qty price stop_loss take_profits timeout_min cs =
     (r, cs @ [PlaceOrder (entry_order bs (if lowered = ''long'' then ''Buy'' else ''Sell'') qty price)])"
  using assms
  by (simp add: place_limit_order_def place_limit_order_body_def seq_lift seq_place_order lift_def Let_def)

text \<open>Claim C4 at the sample trade on the exchange that rejects every order.\<close>

theorem entry_rejection_aborts_bracket_witness:
  "place_limit_order rejecting_exchange (JStr ''HYPE/USDT'') (JStr ''long'') (7898 / 1000) (JNum (4464 / 100))
      (JNum (441336 / 10000)) sample_take_profits (JNum 120) [] =
     (rejected_response, [PlaceOrder (entry_order ''HYPEUSDT'' ''Buy'' (7898 / 1000) (JNum (4464 / 100)))])"
  using entry_rejection_aborts_bracket [of "JStr ''HYPE/USDT''" "''HYPEUSDT''" "JStr ''long''" "''long''" rejecting_exchange "[]"
      "7898 / 1000" "JNum (4464 / 100)" rejected_response "JNum (441336 / 10000)" sample_take_profits "JNum 120"]
  by (simp add: rejecting_exchange_def ret_code_zero_def rejected_response_def andthen_def lower_char_def)

subsection \<open>Rejection of the stop-loss\<close>

text \<open>
  Claim C5. Let the entry be accepted and the stop-loss be answered with a non-zero return
  code. If every take-profit entry has a numeric \<open>size_pct\<close> and a \<open>price\<close>, and the
  exchange answers every take-profit submission (with any return code), then the calls made
  are the entry, the stop-loss and one order for each take-profit, in the order of the list,
  and the result has \<open>success = True\<close> and carries the rejected stop-loss response.
\<close>

theorem stop_loss_rejection_keeps_take_profits:
  assumes "py_strip_slash symbol = Inr bs" and "py_lower side = Inr lowered"
    and "buy = (if lowered = ''long'' then ''Buy'' else ''Sell'')"
    and "sell = (if lowered = ''long'' then ''Sell'' else ''Buy'')"
    and "ex cs (PlaceOrder (entry_order bs buy qty price)) = Returns r0"
    and "ret_code_zero r0 = Inr True" and "order_id r0 = Inr oid"
    and "ex (cs @ [PlaceOrder (entry_order bs buy qty price)]) (PlaceOrder (stop_order bs sell qty stop_loss)) = Returns r1"
    and "ret_code_zero r1 = Inr False"
    and "py_iter take_profits = Inr tps" and "list_all2 leg_of tps legs"
    and "\<forall>i<length legs. answered
           (ex (cs @ [PlaceOrder (entry_order bs buy qty price), PlaceOrder (stop_order bs sell qty stop_loss)]
                   @ map (\<lambda>l. PlaceOrder (take_profit_leg bs sell qty l)) (take i legs))
               (PlaceOrder (take_profit_leg bs sell qty (legs ! i))))"
  shows "snd (place_limit_order ex symbol side qty price stop_loss take_profits timeout_min cs) =
           cs @ [PlaceOrder (entry_order bs buy qty price), PlaceOrder (stop_order bs sell qty stop_loss)]
              @ map (\<lambda>l. PlaceOrder (take_profit_leg bs sell qty l)) legs
     \<and> py_getitem (fst (place_limit_order ex symbol side qty price stop_loss take_profits timeout_min cs)) ''success''
           = Inr (JBool True)
     \<and> py_getitem (fst (place_limit_order ex symbol side qty price stop_loss take_profits timeout_min cs)) ''stop_loss''
           = Inr r1"
proof -
  let ?E = "PlaceOrder (entry_order bs buy qty price)"
  let ?S = "PlaceOrder (stop_order bs sell qty stop_loss)"
  let ?T = "\<lambda>l. PlaceOrder (take_profit_leg bs sell qty l)"
  have "\<forall>i<length legs. answered (ex ((cs @ [?E, ?S]) @ map ?T (take i legs)) (?T (legs ! i)))"
    using assms(12) by simp
  from place_take_profits_all [OF assms(11) this, of "[]"]
  obtain out where loop: "place_take_profits ex bs sell qty tps [] (cs @ [?E, ?S]) = (Inr out, cs @ [?E, ?S] @ map ?T legs)"
    by auto
  have run: "seq (place_take_profits ex bs sell qty tps []) f (cs @ [?E, ?S]) = f out (cs @ [?E, ?S] @ map ?T legs)" for f
    by (simp add: seq_def loop)
  have "place_limit_order_body ex symbol side qty price stop_loss take_profits cs =
      (Inr (JObj [(''success'', JBool True), (''main_order'', r0), (''stop_loss'', r1), (''take_profits'', JList out)]),
       cs @ [?E, ?S] @ map ?T legs)"
    using assms(5-10)
    by (simp add: place_limit_order_body_def seq_lift seq_place_order Let_def assms(1,2)
        assms(3) [symmetric] assms(4) [symmetric] run lift_def)
  then show ?thesis
    by (simp add: place_limit_order_def)
qed

text \<open>Claim C5 at the sample trade: the stop-loss and the second take-profit are rejected,
  and all three take-profits are submitted.\<close>

theorem stop_loss_rejection_keeps_take_profits_witness:
  "snd (place_limit_order stop_rejecting_exchange (JStr ''HYPE/USDT'') (JStr ''long'') (7898 / 1000)
         (JNum (4464 / 100)) (JNum (441336 / 10000)) sample_take_profits (JNum 120) []) =
      [PlaceOrder (entry_order ''HYPEUSDT'' ''Buy'' (7898 / 1000) (JNum (4464 / 100))),
       PlaceOrder (stop_order ''HYPEUSDT'' ''Sell'' (7898 / 1000) (JNum (441336 / 10000)))]
      @ map (\<lambda>l. PlaceOrder (take_profit_leg ''HYPEUSDT'' ''Sell'' (7898 / 1000) l)) sample_legs
   \<and> py_getitem (fst (place_limit_order stop_rejecting_exchange (JStr ''HYPE/USDT'') (JStr ''long'') (7898 / 1000)
         (JNum (4464 / 100)) (JNum (441336 / 10000)) sample_take_profits (JNum 120) [])) ''success'' = Inr (JBool True)
   \<and> py_getitem (fst (place_limit_order stop_rejecting_exchange (JStr ''HYPE/USDT'') (JStr ''long'') (7898 / 1000)
         (JNum (4464 / 100)) (JNum (441336 / 10000)) sample_take_profits (JNum 120) [])) ''stop_loss'' = Inr rejected_response"
proof -
  let ?E = "PlaceOrder (entry_order ''HYPEUSDT'' ''Buy'' (7898 / 1000) (JNum (4464 / 100)))"
  let ?S = "PlaceOrder (stop_order ''HYPEUSDT'' ''Sell'' (7898 / 1000) (JNum (441336 / 10000)))"
  have h1: "py_strip_slash (JStr ''HYPE/USDT'') = Inr ''HYPEUSDT''" by simp
  have h2: "py_lower (JStr ''long'') = Inr ''long''" by (simp add: lower_char_def)
  have h3: "''Buy'' = (if ''long'' = ''long'' then ''Buy'' else ''Sell'')" by simp
  have h4: "''Sell'' = (if ''long'' = ''long'' then ''Sell'' else ''Buy'')" by simp
  have h5: "stop_rejecting_exchange [] ?E = Returns accepted_response"
    by (simp add: stop_rejecting_exchange_def entry_order_def)
  have h6: "ret_code_zero accepted_response = Inr True"
    by (simp add: ret_code_zero_def accepted_response_def andthen_def)
  have h7: "order_id accepted_response = Inr (JStr ''1'')"
    by (simp add: order_id_def accepted_response_def andthen_def)
  have h8: "stop_rejecting_exchange ([] @ [?E]) ?S = Returns rejected_response"
    by (simp add: stop_rejecting_exchange_def stop_order_def)
  have h9: "ret_code_zero rejected_response = Inr False"
    by (simp add: ret_code_zero_def rejected_response_def andthen_def)
  have h10: "py_iter sample_take_profits = Inr [JObj [(''price'', JNum (451464 / 10000)), (''size_pct'', JNum 30)],
      JObj [(''price'', JNum (455516 / 10000)), (''size_pct'', JNum 40)],
      JObj [(''price'', JNum (459064 / 10000)), (''size_pct'', JNum 30)]]"
    by (simp add: sample_take_profits_def)
  have h12: "\<forall>i<length sample_legs. answered (stop_rejecting_exchange
      ([] @ [?E, ?S] @ map (\<lambda>l. PlaceOrder (take_profit_leg ''HYPEUSDT'' ''Sell'' (7898 / 1000) l)) (take i sample_legs))
      (PlaceOrder (take_profit_leg ''HYPEUSDT'' ''Sell'' (7898 / 1000) (sample_legs ! i))))"
    by (simp add: stop_rejecting_answers)
  from stop_loss_rejection_keeps_take_profits [OF h1 h2 h3 h4 h5 h6 h7 h8 h9 h10 sample_legs h12, of "JNum 120"]
  show ?thesis by simp
qed

subsection \<open>Quantities of the take-profit legs\<close>

text \<open>
  Claim C6. Let \<open>place_limit_order\<close> be called with entry quantity \<open>qty\<close>, let the entry
  be accepted, and let the exchange answer the stop-loss and every take-profit submission
  (with any return code). If every take-profit entry has a numeric \<open>size_pct\<close> and a
  \<open>price\<close>, the calls made are the entry with quantity \<open>qty\<close>, the stop-loss, and one
  order for each take-profit, in the order of the list; the quantity of each of these is
  \<open>qty * (size_pct / 100)\<close> for its take-profit, its price is the take-profit's price, and
  the quantities add up to \<open>qty * (sum of size_pct) / 100\<close>.
\<close>

theorem take_profit_leg_quantities:
  assumes "py_strip_slash symbol = Inr bs" and "py_lower side = Inr lowered"
    and "buy = (if lowered = ''long'' then ''Buy'' else ''Sell'')"
    and "sell = (if lowered = ''long'' then ''Sell'' else ''Buy'')"
    and "ex cs (PlaceOrder (entry_order bs buy qty price)) = Returns r0"
    and "ret_code_zero r0 = Inr True" and "order_id r0 = Inr oid"
    and "answered (ex (cs @ [PlaceOrder (entry_order bs buy qty price)]) (PlaceOrder (stop_order bs sell qty stop_loss)))"
    and "py_iter take_profits = Inr tps" and "list_all2 leg_of tps legs"
    and "\<forall>i<length legs. answered
           (ex (cs @ [PlaceOrder (entry_order bs buy qty price), PlaceOrder (stop_order bs sell qty stop_loss)]
                   @ map (\<lambda>l. PlaceOrder (take_profit_leg bs sell qty l)) (take i legs))
               (PlaceOrder (take_profit_leg bs sell qty (legs ! i))))"
  shows "\<exists>entry stop reqs.
       snd (place_limit_order ex symbol side qty price stop_loss take_profits timeout_min cs) =
         cs @ [PlaceOrder entry, PlaceOrder stop] @ map PlaceOrder reqs
     \<and> o_qty entry = qty \<and> o_orderType entry = ''Limit'' \<and> o_orderType stop = ''Stop''
     \<and> list_all (\<lambda>r. o_orderType r = ''Limit'' \<and> o_side r = sell) reqs
     \<and> map o_qty reqs = map (\<lambda>l. qty * (fst l / 100)) legs
     \<and> map o_price reqs = map (\<lambda>l. Some (snd l)) legs
     \<and> sum_list (map o_qty reqs) = qty * sum_list (map fst legs) / 100"
proof -
  define reqs where "reqs = map (take_profit_leg bs sell qty) legs"
  from place_limit_order_complete [OF assms, of timeout_min]
  have run: "snd (place_limit_order ex symbol side qty price stop_loss take_profits timeout_min cs) =
      cs @ [PlaceOrder (entry_order bs buy qty price), PlaceOrder (stop_order bs sell qty stop_loss)]
         @ map PlaceOrder reqs"
    by (simp add: reqs_def)
  have e: "o_qty (entry_order bs buy qty price) = qty" "o_orderType (entry_order bs buy qty price) = ''Limit''"
    by (simp_all add: entry_order_def)
  have st: "o_orderType (stop_order bs sell qty stop_loss) = ''Stop''"
    by (simp add: stop_order_def)
  have kind: "list_all (\<lambda>r. o_orderType r = ''Limit'' \<and> o_side r = sell) reqs"
    by (simp add: reqs_def list_all_iff take_profit_leg_def take_profit_order_def)
  have q: "map o_qty reqs = map (\<lambda>l. qty * (fst l / 100)) legs"
    by (simp add: reqs_def take_profit_leg_def take_profit_order_def)
  have p: "map o_price reqs = map (\<lambda>l. Some (snd l)) legs"
    by (simp add: reqs_def take_profit_leg_def take_profit_order_def)
  have "sum_list (map o_qty reqs) = sum_list (map (\<lambda>l. qty * (fst l / 100)) legs)"
    by (simp only: q)
  also have "\<dots> = qty * sum_list (map fst legs) / 100"
    by (rule sum_list_scaled)
  finally have "sum_list (map o_qty reqs) = qty * sum_list (map fst legs) / 100" .
  with run e st kind q p show ?thesis by blast
qed

text \<open>Claim C6 at the sample trade with \<open>qty = 10\<close>, on the exchange that rejects the
  stop-loss and the second take-profit: after the entry and the stop-loss, legs of 3, 4
  and 3.\<close>

theorem take_profit_leg_quantities_witness:
  "\<exists>entry stop reqs.
       snd (place_limit_order stop_rejecting_exchange (JStr ''HYPE/USDT'') (JStr ''long'') 10
         (JNum (4464 / 100)) (JNum (441336 / 10000)) sample_take_profits (JNum 120) []) =
         [PlaceOrder entry, PlaceOrder stop] @ map PlaceOrder reqs
     \<and> o_qty entry = 10 \<and> map o_qty reqs = [3, 4, 3] \<and> sum_list (map o_qty reqs) = 10"
proof -
  let ?E = "PlaceOrder (entry_order ''HYPEUSDT'' ''Buy'' 10 (JNum (4464 / 100)))"
  let ?S = "PlaceOrder (stop_order ''HYPEUSDT'' ''Sell'' 10 (JNum (441336 / 10000)))"
  have h1: "py_strip_slash (JStr ''HYPE/USDT'') = Inr ''HYPEUSDT''" by simp
  have h2: "py_lower (JStr ''long'') = Inr ''long''" by (simp add: lower_char_def)
  have h3: "''Buy'' = (if ''long'' = ''long'' then ''Buy'' else ''Sell'')" by simp
  have h4: "''Sell'' = (if ''long'' = ''long'' then ''Sell'' else ''Buy'')" by simp
  have h5: "stop_rejecting_exchange [] ?E = Returns accepted_response"
    by (simp add: stop_rejecting_exchange_def entry_order_def)
  have h6: "ret_code_zero accepted_response = Inr True"
    by (simp add: ret_code_zero_def accepted_response_def andthen_def)
  have h7: "order_id accepted_response = Inr (JStr ''1'')"
    by (simp add: order_id_def accepted_response_def andthen_def)
  have h8: "answered (stop_rejecting_exchange ([] @ [?E]) ?S)"
    by (rule stop_rejecting_answers)
  have h9: "py_iter sample_take_profits = Inr [JObj [(''price'', JNum (451464 / 10000)), (''size_pct'', JNum 30)],
      JObj [(''price'', JNum (455516 / 10000)), (''size_pct'', JNum 40)],
      JObj [(''price'', JNum (459064 / 10000)), (''size_pct'', JNum 30)]]"
    by (simp add: sample_take_profits_def)
  have h11: "\<forall>i<length sample_legs. answered (stop_rejecting_exchange
      ([] @ [?E, ?S] @ map (\<lambda>l. PlaceOrder (take_profit_leg ''HYPEUSDT'' ''Sell'' 10 l)) (take i sample_legs))
      (PlaceOrder (take_profit_leg ''HYPEUSDT'' ''Sell'' 10 (sample_legs ! i))))"
    by (simp add: stop_rejecting_answers)
  from take_profit_leg_quantities [OF h1 h2 h3 h4 h5 h6 h7 h8 h9 sample_legs h11, of "JNum 120"]
  obtain entry stop reqs where
    "snd (place_limit_order stop_rejecting_exchange (JStr ''HYPE/USDT'') (JStr ''long'') 10
         (JNum (4464 / 100)) (JNum (441336 / 10000)) sample_take_profits (JNum 120) []) =
       [] @ [PlaceOrder entry, PlaceOrder stop] @ map PlaceOrder reqs"
    and "o_qty entry = 10"
    and "map o_qty reqs = map (\<lambda>l. 10 * (fst l / 100)) sample_legs"
    and "sum_list (map o_qty reqs) = 10 * sum_list (map fst sample_legs) / 100"
    by blast
  then show ?thesis
    by (intro exI [of _ entry] exI [of _ stop] exI [of _ reqs]) (simp add: sample_legs_def)
qed

subsection \<open>Sides of the legs\<close>

text \<open>
  Claim C7. On every exchange, \<open>place_limit_order\<close> with a string symbol and a string side
  first submits the entry, and every call after it is an order on the opposite side: when
  the lower-cased side is \<open>long\<close> the entry is a Buy and the later orders are Sells;
  otherwise (a Short entry) the entry is a Sell and the later orders are Buys.
\<close>

theorem dependent_legs_opposite_side:
  assumes "py_strip_slash symbol = Inr bs" and "py_lower side = Inr lowered"
  shows "\<exists>entry deps.
      snd (place_limit_order ex symbol side qty price stop_loss take_profits timeout_min cs) = cs @ entry # deps
    \<and> on_side (if lowered = ''long'' then ''Buy'' else ''Sell'') entry
    \<and> list_all (on_side (if lowered = ''long'' then ''Sell'' else ''Buy'')) deps"
proof -
  define buy where "buy = (if lowered = ''long'' then ''Buy'' else ''Sell'')"
  define sell where "sell = (if lowered = ''long'' then ''Sell'' else ''Buy'')"
  define E where "E = PlaceOrder (entry_order bs buy qty price)"
  define S where "S = PlaceOrder (stop_order bs sell qty stop_loss)"
  have E: "on_side buy E" by (simp add: E_def entry_order_def)
  have S: "on_side sell S" by (simp add: S_def stop_order_def)
  have loop: "\<exists>deps. snd (place_take_profits ex bs sell qty tps [] (cs @ [E, S])) = cs @ E # deps
      \<and> list_all (on_side sell) deps" for tps
  proof -
    from place_take_profits_sides [of ex bs sell qty tps "[]" "cs @ [E, S]"]
    obtain new where "snd (place_take_profits ex bs sell qty tps [] (cs @ [E, S])) = (cs @ [E, S]) @ new"
      and "list_all (on_side sell) new" by blast
    with S show ?thesis by (intro exI [of _ "S # new"]) simp
  qed
  have "\<exists>deps. snd (place_limit_order_body ex symbol side qty price stop_loss take_profits cs) = cs @ E # deps
      \<and> list_all (on_side sell) deps"
    using S loop
    by (auto simp: place_limit_order_body_def seq_lift seq_place_order lift_def Let_def assms
          buy_def [symmetric] sell_def [symmetric] E_def [symmetric] S_def [symmetric] snd_seq_result
        split: sum.splits reply.splits)
  then obtain deps where "snd (place_limit_order_body ex symbol side qty price stop_loss take_profits cs) = cs @ E # deps"
    and "list_all (on_side sell) deps" by blast
  then have "snd (place_limit_order ex symbol side qty price stop_loss take_profits timeout_min cs) = cs @ E # deps"
    by (simp add: snd_place_limit_order)
  with E \<open>list_all (on_side sell) deps\<close> show ?thesis
    unfolding buy_def sell_def by blast
qed

text \<open>Claim C7 at a short entry: one Sell and four Buys (the stop-loss and three
  take-profits).\<close>

theorem dependent_legs_opposite_side_witness:
  "\<exists>entry deps.
      snd (place_limit_order stop_rejecting_exchange (JStr ''HYPE/USDT'') (JStr ''Short'') (7898 / 1000)
         (JNum (4464 / 100)) (JNum (451464 / 10000)) sample_take_profits (JNum 120) []) = entry # deps
    \<and> on_side ''Sell'' entry \<and> list_all (on_side ''Buy'') deps \<and> length deps = 4"
proof -
  have len: "length (snd (place_limit_order stop_rejecting_exchange (JStr ''HYPE/USDT'') (JStr ''Short'') (7898 / 1000)
         (JNum (4464 / 100)) (JNum (451464 / 10000)) sample_take_profits (JNum 120) [])) = 5"
    by (simp add: placing_eval stop_rejecting_exchange_def)
  from dependent_legs_opposite_side [of "JStr ''HYPE/USDT''" "''HYPEUSDT''" "JStr ''Short''" "''short''" stop_rejecting_exchange
      "7898 / 1000" "JNum (4464 / 100)" "JNum (451464 / 10000)" sample_take_profits "JNum 120" "[]"]
  obtain entry deps where "snd (place_limit_order stop_rejecting_exchange (JStr ''HYPE/USDT'') (JStr ''Short'') (7898 / 1000)
         (JNum (4464 / 100)) (JNum (451464 / 10000)) sample_take_profits (JNum 120) []) = entry # deps"
    and "on_side ''Sell'' entry" and "list_all (on_side ''Buy'') deps"
    by (auto simp: lower_char_def)
  with len show ?thesis by auto
qed

section \<open>Trade execution\<close>

subsection \<open>Auxiliary facts\<close>

lemma seq_no_raise: "seq (no_raise m) f cs = (case m cs of (v, cs') \<Rightarrow> f v cs')"
  by (simp add: seq_def no_raise_def split: prod.splits)

lemma py_getitem_InrD:
  assumes "py_getitem d k = Inr v"
  shows "\<exists>kvs. d = JObj kvs \<and> k \<in> fst ` set kvs"
proof (cases d)
  case (JObj kvs)
  with assms have "map_of kvs k = Some v" by (simp split: option.splits)
  then have "(k, v) \<in> set kvs" by (rule map_of_SomeD)
  then have "k \<in> fst ` set kvs" by force
  with JObj show ?thesis by simp
qed (use assms in simp_all)

lemma seq_InrD:
  assumes "seq m f cs = (Inr r, cs')"
  shows "\<exists>v cs1. m cs = (Inr v, cs1) \<and> f v cs1 = (Inr r, cs')"
  using assms by (cases "m cs") (auto simp: seq_def split: sum.splits)

lemma lift_InrD: "lift x cs = (Inr r, cs') \<Longrightarrow> x = Inr r"
  by (simp add: lift_def)

lemma failure_has_success: "\<exists>kvs. failure msg = JObj kvs \<and> ''success'' \<in> fst ` set kvs"
  by (simp add: failure_def)

lemma execute_trade_body_success:
  assumes "execute_trade_body flt ex trade_data cs = (Inr r, cs')"
  shows "\<exists>kvs. r = JObj kvs \<and> ''success'' \<in> fst ` set kvs"
  using assms unfolding execute_trade_body_def
  by (auto dest!: seq_InrD lift_InrD py_getitem_InrD simp: failure_def split: option.splits if_splits)

lemma execute_trade_success_key:
  "\<exists>kvs. fst (execute_trade flt ex trade_data cs) = JObj kvs \<and> ''success'' \<in> fst ` set kvs"
proof (cases "execute_trade_body flt ex trade_data cs")
  case (Pair res cs')
  show ?thesis
  proof (cases res)
    case (Inl e)
    with Pair show ?thesis by (simp add: execute_trade_def failure_def)
  next
    case (Inr r)
    with Pair execute_trade_body_success [of flt ex trade_data cs r cs'] show ?thesis
      by (simp add: execute_trade_def)
  qed
qed


lemma andthen_Inr: "andthen (Inr v) f = f v"
  by (simp add: andthen_def)

lemma andthen_Inl: "andthen (Inl e) f = Inl e"
  by (simp add: andthen_def)

lemma py_getitem_in:
  assumes "py_getitem d k = Inr v"
  shows "py_in k d = Inr True"
proof -
  from py_getitem_InrD [OF assms] obtain kvs where "d = JObj kvs" and "k \<in> fst ` set kvs"
    by blast
  then show ?thesis by simp
qed

lemma execute_trade_entry_rejected:
  assumes "py_getitem trade_data ''symbol'' = Inr symbol" and "py_getitem trade_data ''side'' = Inr side"
    and "py_getitem trade_data ''limit_plan'' = Inr limit_plan" and "py_getitem trade_data ''risk'' = Inr risk"
    and "get_symbol_info ex symbol cs = (symbol_info, cs1)" and "py_truthy symbol_info"
    and "andthen (py_getitem limit_plan ''orders'') (\<lambda>orders.
           andthen (py_first orders) (\<lambda>order. py_getitem order ''price'')) = Inr entry_price"
    and "py_getitem limit_plan ''stop_loss'' = Inr stop_loss"
    and "py_get risk ''risk_per_trade_pct'' (JNum (4 / 10)) = Inr risk_pct"
    and "calculate_position_size flt ex risk_pct stop_loss entry_price symbol_info cs1 = (position_size, cs2)"
    and "position_size \<noteq> 0"
    and "py_getitem limit_plan ''take_profits'' = Inr take_profits"
    and "andthen (py_getitem limit_plan ''cancel_if'') (\<lambda>c. py_getitem c ''timeout_min'') = Inr timeout_min"
    and "py_strip_slash symbol = Inr bs" and "py_lower side = Inr lowered"
    and "ex cs2 (PlaceOrder (entry_order bs (if lowered = ''long'' then ''Buy'' else ''Sell'') position_size entry_price))
           = Returns r"
    and "ret_code_zero r = Inr False"
    and "py_getitem r ''success'' = Inl (KeyError (quote ''success''))"
  shows "place_limit_order ex symbol side position_size entry_price stop_loss take_profits timeout_min cs2 =
           (r, cs2 @ [PlaceOrder (entry_order bs (if lowered = ''long'' then ''Buy'' else ''Sell'') position_size entry_price)])
     \<and> execute_trade flt ex trade_data cs =
           (failure (JStr (quote ''success'')),
            cs2 @ [PlaceOrder (entry_order bs (if lowered = ''long'' then ''Buy'' else ''Sell'') position_size entry_price)])
     \<and> py_getitem (fst (execute_trade flt ex trade_data cs)) ''success'' = Inr (JBool False)
     \<and> py_getitem (fst (execute_trade flt ex trade_data cs)) ''error'' = Inr (JStr (quote ''success''))"
proof -
  have plo: "place_limit_order ex symbol side position_size entry_price stop_loss take_profits timeout_min cs2 =
      (r, cs2 @ [PlaceOrder (entry_order bs (if lowered = ''long'' then ''Buy'' else ''Sell'') position_size entry_price)])"
    using assms(14-17)
    by (simp add: place_limit_order_def place_limit_order_body_def seq_lift seq_place_order lift_def Let_def)
  have mf: "missing_field trade_data [''symbol'', ''side'', ''limit_plan'', ''risk''] = Inr None"
    using assms(1-4) by (simp add: py_getitem_in andthen_Inr)
  have rp: "py_get risk ''risk_per_trade_pct'' (JNum (2 / 5)) = Inr risk_pct"
    using assms(9) by simp
  have "execute_trade_body flt ex trade_data cs =
      (Inl (KeyError (quote ''success'')),
       cs2 @ [PlaceOrder (entry_order bs (if lowered = ''long'' then ''Buy'' else ''Sell'') position_size entry_price)])"
    unfolding execute_trade_body_def
    using assms(6,11)
    by (simp add: seq_lift seq_no_raise assms(1-5) assms(7,8,10) rp assms(12,13) assms(18) mf plo lift_def
          andthen_Inr del: missing_field.simps)
  with plo show ?thesis
    by (simp add: execute_trade_def failure_def)
qed

lemmas trade_eval = sample_trade_def trade_with_def plan_with_def sample_take_profits_def


subsection \<open>The result always reports success or failure\<close>

text \<open>
  Claim C10. For every payload and every exchange, \<open>execute_trade\<close> returns a dict with a
  \<open>success\<close> key. When the run reaches the placement and the exchange answers the entry
  order with a non-zero return code in a response that has no \<open>success\<close> key,
  \<open>place_limit_order\<close> returns that response as it is, the lookup \<open>result['success']\<close>
  raises KeyError, and \<open>execute_trade\<close> returns a dict whose \<open>success\<close> is \<open>False\<close> and whose
  \<open>error\<close> is the text of that KeyError, after the entry order and no other order.
\<close>

theorem execute_trade_reports_success_key:
  "(\<exists>kvs. fst (execute_trade flt ex trade_data cs) = JObj kvs \<and> ''success'' \<in> fst ` set kvs)
   \<and> (py_getitem trade_data ''symbol'' = Inr symbol \<and> py_getitem trade_data ''side'' = Inr side
      \<and> py_getitem trade_data ''limit_plan'' = Inr limit_plan \<and> py_getitem trade_data ''risk'' = Inr risk
      \<and> get_symbol_info ex symbol cs = (symbol_info, cs1) \<and> py_truthy symbol_info
      \<and> andthen (py_getitem limit_plan ''orders'') (\<lambda>orders.
           andthen (py_first orders) (\<lambda>order. py_getitem order ''price'')) = Inr entry_price
      \<and> py_getitem limit_plan ''stop_loss'' = Inr stop_loss
      \<and> py_get risk ''risk_per_trade_pct'' (JNum (4 / 10)) = Inr risk_pct
      \<and> calculate_position_size flt ex risk_pct stop_loss entry_price symbol_info cs1 = (position_size, cs2)
      \<and> position_size \<noteq> 0
      \<and> py_getitem limit_plan ''take_profits'' = Inr take_profits
      \<and> andthen (py_getitem limit_plan ''cancel_if'') (\<lambda>c. py_getitem c ''timeout_min'') = Inr timeout_min
      \<and> py_strip_slash symbol = Inr bs \<and> py_lower side = Inr lowered
      \<and> ex cs2 (PlaceOrder (entry_order bs (if lowered = ''long'' then ''Buy'' else ''Sell'') position_size entry_price))
           = Returns r
      \<and> ret_code_zero r = Inr False
      \<and> py_getitem r ''success'' = Inl (KeyError (quote ''success''))
    \<longrightarrow>
      place_limit_order ex symbol side position_size entry_price stop_loss take_profits timeout_min cs2 =
           (r, cs2 @ [PlaceOrder (entry_order bs (if lowered = ''long'' then ''Buy'' else ''Sell'') position_size entry_price)])
      \<and> execute_trade flt ex trade_data cs =
           (failure (JStr (quote ''success'')),
            cs2 @ [PlaceOrder (entry_order bs (if lowered = ''long'' then ''Buy'' else ''Sell'') position_size entry_price)])
      \<and> py_getitem (fst (execute_trade flt ex trade_data cs)) ''success'' = Inr (JBool False)
      \<and> py_getitem (fst (execute_trade flt ex trade_data cs)) ''error'' = Inr (JStr (quote ''success'')))"
  using execute_trade_success_key [of flt ex trade_data cs]
    execute_trade_entry_rejected [of trade_data symbol side limit_plan risk ex cs symbol_info cs1 entry_price stop_loss risk_pct flt
      position_size cs2 take_profits timeout_min bs lowered r]
  by blast

text \<open>Claim C10 at the sample trade on the exchange that rejects every order.\<close>

theorem execute_trade_reports_success_key_witness:
  "execute_trade (\<lambda>s. None) rejecting_exchange sample_trade [] =
     (failure (JStr (quote ''success'')),
      [GetInstrumentsInfo ''linear'' ''HYPEUSDT'', GetWalletBalance ''UNIFIED'',
       PlaceOrder (entry_order ''HYPEUSDT'' ''Buy'' (7898 / 1000) (JNum (4464 / 100)))])
   \<and> py_getitem (fst (execute_trade (\<lambda>s. None) rejecting_exchange sample_trade [])) ''success'' = Inr (JBool False)
   \<and> py_getitem (fst (execute_trade (\<lambda>s. None) rejecting_exchange sample_trade [])) ''error''
         = Inr (JStr (quote ''success''))"
proof -
  let ?risk = "JObj [(''risk_per_trade_pct'', JNum (4 / 10))]"
  let ?cs1 = "[GetInstrumentsInfo ''linear'' ''HYPEUSDT'']"
  let ?cs2 = "[GetInstrumentsInfo ''linear'' ''HYPEUSDT'', GetWalletBalance ''UNIFIED'']"
  have h1: "py_getitem sample_trade ''symbol'' = Inr (JStr ''HYPE/USDT'')"
    and h2: "py_getitem sample_trade ''side'' = Inr (JStr ''long'')"
    and h3: "py_getitem sample_trade ''limit_plan'' = Inr (plan_with sample_take_profits)"
    and h4: "py_getitem sample_trade ''risk'' = Inr ?risk"
    by (simp_all add: sample_trade_def trade_with_def)
  have h5: "get_symbol_info rejecting_exchange (JStr ''HYPE/USDT'') [] = (instrument (1 / 1000) (1 / 1000), ?cs1)"
    by (simp add: get_symbol_info_def session_call_def rejecting_exchange_def instruments_response_def andthen_def)
  have h6: "py_truthy (instrument (1 / 1000) (1 / 1000))"
    by (simp add: instrument_def)
  have h7: "andthen (py_getitem (plan_with sample_take_profits) ''orders'') (\<lambda>orders.
           andthen (py_first orders) (\<lambda>order. py_getitem order ''price'')) = Inr (JNum (4464 / 100))"
    and h8: "py_getitem (plan_with sample_take_profits) ''stop_loss'' = Inr (JNum (441336 / 10000))"
    and h12: "py_getitem (plan_with sample_take_profits) ''take_profits'' = Inr sample_take_profits"
    and h13: "andthen (py_getitem (plan_with sample_take_profits) ''cancel_if'') (\<lambda>c. py_getitem c ''timeout_min'')
        = Inr (JNum 120)"
    by (simp_all add: plan_with_def andthen_def)
  have h9: "py_get ?risk ''risk_per_trade_pct'' (JNum (4 / 10)) = Inr (JNum (4 / 10))"
    by simp
  have h10: "calculate_position_size (\<lambda>s. None) rejecting_exchange (JNum (4 / 10)) (JNum (441336 / 10000))
        (JNum (4464 / 100)) (instrument (1 / 1000) (1 / 1000)) ?cs1 = (7898 / 1000, ?cs2)"
    by (simp add: sizing_eval rejecting_exchange_def floor_scenario)
  have h11: "(7898 / 1000 :: rat) \<noteq> 0" by simp
  have h14: "py_strip_slash (JStr ''HYPE/USDT'') = Inr ''HYPEUSDT''" by simp
  have h15: "py_lower (JStr ''long'') = Inr ''long''" by (simp add: lower_char_def)
  have h16: "rejecting_exchange ?cs2 (PlaceOrder (entry_order ''HYPEUSDT'' (if ''long'' = ''long'' then ''Buy'' else ''Sell'')
        (7898 / 1000) (JNum (4464 / 100)))) = Returns rejected_response"
    by (simp add: rejecting_exchange_def)
  have h17: "ret_code_zero rejected_response = Inr False"
    by (simp add: ret_code_zero_def rejected_response_def andthen_def)
  have h18: "py_getitem rejected_response ''success'' = Inl (KeyError (quote ''success''))"
    by (simp add: rejected_response_def)
  from execute_trade_reports_success_key [of "\<lambda>s. None" rejecting_exchange sample_trade "[]" "JStr ''HYPE/USDT''" "JStr ''long''"
      "plan_with sample_take_profits" ?risk "instrument (1 / 1000) (1 / 1000)" ?cs1 "JNum (4464 / 100)"
      "JNum (441336 / 10000)" "JNum (4 / 10)" "7898 / 1000" ?cs2 sample_take_profits "JNum 120"
      "''HYPEUSDT''" "''long''" rejected_response]
    h1 h2 h3 h4 h5 h6 h7 h8 h9 h10 h11 h12 h13 h14 h15 h16 h17 h18
  have run: "execute_trade (\<lambda>s. None) rejecting_exchange sample_trade [] =
      (failure (JStr (quote ''success'')),
       ?cs2 @ [PlaceOrder (entry_order ''HYPEUSDT'' (if ''long'' = ''long'' then ''Buy'' else ''Sell'')
          (7898 / 1000) (JNum (4464 / 100)))])"
    and flag: "py_getitem (fst (execute_trade (\<lambda>s. None) rejecting_exchange sample_trade [])) ''success''
      = Inr (JBool False)"
    and msg: "py_getitem (fst (execute_trade (\<lambda>s. None) rejecting_exchange sample_trade [])) ''error''
      = Inr (JStr (quote ''success''))"
    by blast+
  from run have "execute_trade (\<lambda>s. None) rejecting_exchange sample_trade [] =
     (failure (JStr (quote ''success'')),
      [GetInstrumentsInfo ''linear'' ''HYPEUSDT'', GetWalletBalance ''UNIFIED'',
       PlaceOrder (entry_order ''HYPEUSDT'' ''Buy'' (7898 / 1000) (JNum (4464 / 100)))])"
    by simp
  with flag msg show ?thesis by (intro conjI)
qed

subsection \<open>The required-field check\<close>


lemma py_in_dict: "py_in k (JObj kvs) = Inr True \<longleftrightarrow> has_key k (JObj kvs)"
  by simp






lemma has_key_map_of: "has_key k (JObj kvs) \<longleftrightarrow> map_of kvs k \<noteq> None"
  by (simp add: map_of_eq_None_iff)





end
